theory Spec2Isabelle
  imports Complex_Main
begin

section \<open>Space elevator backend: data model\<close>

text \<open>
  The module \<^verbatim>\<open>backend/main.py\<close> keeps three globals: the dictionary \<^verbatim>\<open>STATE\<close> with
  seven fixed keys, the float \<^verbatim>\<open>SETPOINT_MS\<close> and the list \<^verbatim>\<open>PARCELS\<close>. They are
  the fields of one record. The string-valued keys only ever hold the literals that the
  code assigns, so they are datatypes.

  The floats that the tick computes with (position, speed, target, setpoint) are
  modelled by the real numbers they denote: the arithmetic of the tick is exact, its
  rounding is not modelled. A float that arrives in a request may also be an infinity
  or NaN; those are values of \<open>pyfloat\<close>. The clamp of the command handler maps them to
  a bound, so they never reach the four fields above. They do reach the weight of a
  parcel (\<^verbatim>\<open>weight_kg: float\<close> accepts every float) and through it \<^verbatim>\<open>payload_kg\<close>, so
  these two are \<open>pyfloat\<close>, added by the addition of IEEE doubles, \<open>py_add\<close> below.
\<close>

datatype pyfloat = Fin real | PInf | NInf | NaN

datatype doors_state = OPEN | CLOSED

datatype cabin_mode = IDLE | MOVING | ERROR

datatype parcel_status = QUEUED | LOADED | SHIPPED | DELIVERED

record parcel =
  parcel_id :: string
  weight_kg :: pyfloat
  destination_km :: pyfloat
  status :: parcel_status

record world =
  position_km :: real
  speed_ms :: real
  payload_kg :: pyfloat
  doors :: doors_state
  running :: bool
  target_km :: real
  cabin :: cabin_mode
  SETPOINT_MS :: real
  PARCELS :: "parcel list"

definition init :: world where
  "init = \<lparr> position_km = 0, speed_ms = 0, payload_kg = Fin 0, doors = CLOSED,
            running = False, target_km = 0, cabin = IDLE,
            SETPOINT_MS = 20, PARCELS = [] \<rparr>"

subsection \<open>Requests\<close>

text \<open>
  A command carries an action out of the seven literals and an optional payload, a
  dictionary from strings to arbitrary JSON values (\<^verbatim>\<open>Optional[Dict[str, Any]]\<close>).
\<close>

datatype pyval =
    PyNone
  | PyBool bool
  | PyInt int
  | PyFloat pyfloat
  | PyStr string
  | PyList "pyval list"
  | PyDict "(string \<times> pyval) list"

datatype action =
  start | stop | emergency_stop | set_doors | set_target | set_speed | load_from_warehouse

record command =
  action :: action
  payload :: "(string \<rightharpoonup> pyval) option"

datatype error = TypeError | ValueError | OverflowError

section \<open>Built-ins used by the handler\<close>

text \<open>
  \<^verbatim>\<open>float(x)\<close>: \<^verbatim>\<open>None\<close>, lists and dictionaries raise \<^verbatim>\<open>TypeError\<close>; a bool is 1.0 or
  0.0; an int converts unless it rounds beyond the largest double, which raises
  \<^verbatim>\<open>OverflowError\<close>; a float is returned as it is. A string is parsed by Python's own
  grammar, which is not part of this repository: the parser is the parameter \<open>sf\<close>,
  returning \<open>None\<close> where \<^verbatim>\<open>float\<close> raises \<^verbatim>\<open>ValueError\<close>.
\<close>

fun py_float :: "(string \<Rightarrow> pyfloat option) \<Rightarrow> pyval \<Rightarrow> error + pyfloat" where
  "py_float sf PyNone = Inl TypeError"
| "py_float sf (PyBool b) = Inr (Fin (if b then 1 else 0))"
| "py_float sf (PyInt n) =
     (if 2 ^ 1024 - 2 ^ 970 \<le> \<bar>n\<bar> then Inl OverflowError else Inr (Fin (of_int n)))"
| "py_float sf (PyFloat x) = Inr x"
| "py_float sf (PyStr t) = (case sf t of None \<Rightarrow> Inl ValueError | Some x \<Rightarrow> Inr x)"
| "py_float sf (PyList vs) = Inl TypeError"
| "py_float sf (PyDict kvs) = Inl TypeError"

text \<open>A parser that rejects every string, to instantiate \<open>sf\<close> in closed examples.\<close>

definition no_str_float :: "string \<Rightarrow> pyfloat option" where
  "no_str_float t = None"

text \<open>
  \<^verbatim>\<open>max(lo, min(hi, x))\<close> for floats \<open>lo\<close>, \<open>hi\<close> and a float \<open>x\<close> that may be infinite or
  NaN. Python's \<^verbatim>\<open>min(hi, x)\<close> is \<open>x\<close> when \<open>x < hi\<close> and \<open>hi\<close> otherwise, \<^verbatim>\<open>max(lo, y)\<close> is
  \<open>y\<close> when \<open>y > lo\<close> and \<open>lo\<close> otherwise, and every comparison with NaN is false. So
  \<open>+inf\<close> and NaN give \<^verbatim>\<open>max(lo, hi)\<close> and \<open>-inf\<close> gives \<open>lo\<close>: the result is finite.
\<close>

fun clamp :: "real \<Rightarrow> real \<Rightarrow> pyfloat \<Rightarrow> real" where
  "clamp lo hi (Fin x) = max lo (min hi x)"
| "clamp lo hi PInf = max lo hi"
| "clamp lo hi NInf = lo"
| "clamp lo hi NaN = max lo hi"

text \<open>
  The \<^verbatim>\<open>+\<close> of two floats. A real \<open>x\<close> is rounded to the nearest double, ties to the
  even significand: the unit in the last place is \<open>2 ^ e\<close> with \<open>e\<close> the binary exponent
  of \<open>x\<close> less 52, and not below \<open>-1074\<close>, the unit of the subnormal doubles; a result of
  magnitude \<open>2 ^ 1024\<close> overflows to an infinity. The sign of a zero is not modelled.
  NaN is absorbing, the two infinities add to NaN, and an infinity absorbs every finite
  value.
\<close>

definition round_half_even :: "real \<Rightarrow> int" where
  "round_half_even q =
     (let f = \<lfloor>q\<rfloor>; d = q - of_int f
      in if d < 1 / 2 then f else if 1 / 2 < d then f + 1 else if even f then f else f + 1)"

definition round_double :: "real \<Rightarrow> pyfloat" where
  "round_double x =
     (if x = 0 then Fin 0
      else (let e = max (\<lfloor>log 2 \<bar>x\<bar>\<rfloor> - 52) (- 1074);
                y = of_int (round_half_even (x / 2 powr of_int e)) * 2 powr of_int e
            in if 2 ^ 1024 \<le> \<bar>y\<bar> then (if 0 < x then PInf else NInf) else Fin y))"

fun py_add :: "pyfloat \<Rightarrow> pyfloat \<Rightarrow> pyfloat" where
  "py_add (Fin x) (Fin y) = round_double (x + y)"
| "py_add NaN b = NaN"
| "py_add a NaN = NaN"
| "py_add PInf NInf = NaN"
| "py_add NInf PInf = NaN"
| "py_add PInf b = PInf"
| "py_add a PInf = PInf"
| "py_add NInf b = NInf"
| "py_add a NInf = NInf"

text \<open>\<^verbatim>\<open>(cmd.payload or {}).get(k, d)\<close>\<close>

definition payload_get :: "command \<Rightarrow> string \<Rightarrow> pyval \<Rightarrow> pyval" where
  "payload_get cmd k d =
     (case payload cmd of
        None \<Rightarrow> d
      | Some m \<Rightarrow> (case m k of None \<Rightarrow> d | Some v \<Rightarrow> v))"

section \<open>The command handler\<close>

text \<open>
  The loop of \<^verbatim>\<open>load_from_warehouse\<close> over \<^verbatim>\<open>PARCELS\<close>, with the payload it adds to:
  the first parcel whose status is \<^verbatim>\<open>QUEUED\<close> is marked \<^verbatim>\<open>LOADED\<close>, its weight is added
  to the payload by the float addition, and the loop breaks. \<^verbatim>\<open>float(p["weight_kg"])\<close> is
  the weight itself, which is a float already.
\<close>

fun load_loop :: "parcel list \<Rightarrow> pyfloat \<Rightarrow> parcel list \<times> pyfloat" where
  "load_loop [] kg = ([], kg)"
| "load_loop (p # ps) kg =
     (if status p = QUEUED then (p\<lparr>status := LOADED\<rparr> # ps, py_add kg (weight_kg p))
      else (case load_loop ps kg of (ps', kg') \<Rightarrow> (p # ps', kg')))"

text \<open>
  \<^verbatim>\<open>send_command\<close>. \<open>Inl\<close> is an exception that leaves the handler (the caller gets no
  \<^verbatim>\<open>{"ok": True}\<close>); \<open>Inr\<close> is the state when the handler returns. The only calls that
  can raise are the two \<^verbatim>\<open>float(...)\<close>, and both come before the assignment, so an
  exception leaves the state as it was. The recovery task that \<^verbatim>\<open>emergency_stop\<close>
  spawns is the function \<open>clear_error\<close> below, run as an event of its own.
\<close>

definition send_command :: "(string \<Rightarrow> pyfloat option) \<Rightarrow> command \<Rightarrow> world \<Rightarrow> error + world" where
  "send_command sf cmd s =
     (case action cmd of
        start \<Rightarrow>
          Inr (if doors s \<noteq> OPEN then s\<lparr>running := True, cabin := MOVING\<rparr> else s)
      | stop \<Rightarrow> Inr (s\<lparr>running := False, cabin := IDLE\<rparr>)
      | emergency_stop \<Rightarrow> Inr (s\<lparr>running := False, cabin := ERROR\<rparr>)
      | set_doors \<Rightarrow>
          (let want = payload_get cmd ''state'' PyNone
           in Inr (if \<bar>speed_ms s\<bar> < 0.1
                   then s\<lparr>doors := (if want = PyStr ''OPEN'' then OPEN else CLOSED)\<rparr>
                   else s))
      | set_target \<Rightarrow>
          (case py_float sf (payload_get cmd ''km'' (PyInt 0)) of
             Inl e \<Rightarrow> Inl e
           | Inr km \<Rightarrow> Inr (s\<lparr>target_km := clamp 0 100 km\<rparr>))
      | set_speed \<Rightarrow>
          (case py_float sf (payload_get cmd ''ms'' (PyFloat (Fin (SETPOINT_MS s)))) of
             Inl e \<Rightarrow> Inl e
           | Inr ms \<Rightarrow> Inr (s\<lparr>SETPOINT_MS := clamp 0 200 ms\<rparr>))
      | load_from_warehouse \<Rightarrow>
          (case load_loop (PARCELS s) (payload_kg s) of
             (ps, kg) \<Rightarrow> Inr (s\<lparr>PARCELS := ps, payload_kg := kg\<rparr>)))"

text \<open>\<^verbatim>\<open>_clear_error\<close>, the part under the lock, run when the sleep of 1.5 s is over.\<close>

definition clear_error :: "world \<Rightarrow> world" where
  "clear_error s = (if cabin s = ERROR then s\<lparr>cabin := IDLE\<rparr> else s)"

text \<open>\<^verbatim>\<open>add_parcel\<close>: \<^verbatim>\<open>PARCELS.insert(0, p)\<close>.\<close>

definition add_parcel :: "parcel \<Rightarrow> world \<Rightarrow> world" where
  "add_parcel p s = s\<lparr>PARCELS := p # PARCELS s\<rparr>"

section \<open>The simulation loop\<close>

definition TICK :: real where
  "TICK = 0.2"

text \<open>One iteration of \<^verbatim>\<open>sim_loop\<close>, the part under the lock.\<close>

definition tick :: "world \<Rightarrow> world" where
  "tick s =
     (let moving = (running s \<and> doors s \<noteq> OPEN \<and> \<bar>target_km s - position_km s\<bar> > 0.01)
      in if moving then
           (let direction = (if target_km s > position_km s then 1 else - 1);
                delta_km = (SETPOINT_MS s / 1000) * TICK;
                s1 = s\<lparr>cabin := MOVING,
                       position_km := position_km s + direction * delta_km,
                       speed_ms := direction * SETPOINT_MS s\<rparr>;
                arrived = ((target_km s1 - position_km s1) * direction \<le> 0
                           \<or> \<bar>target_km s1 - position_km s1\<bar> < 0.005)
            in if arrived
               then s1\<lparr>position_km := target_km s1, running := False,
                       speed_ms := 0, cabin := IDLE\<rparr>
               else s1)
         else
           (let s1 = s\<lparr>speed_ms := 0\<rparr>
            in if \<not> running s1 then s1\<lparr>cabin := IDLE\<rparr> else s1))"

section \<open>Interleavings\<close>

text \<open>
  The lock makes every command, tick and recovery action atomic, so a run of the process
  is a sequence of events. A command that raises leaves the state as it was.
\<close>

datatype event = Command command | Tick | ClearError | AddParcel parcel

fun step :: "(string \<Rightarrow> pyfloat option) \<Rightarrow> event \<Rightarrow> world \<Rightarrow> world" where
  "step sf (Command cmd) s = (case send_command sf cmd s of Inl e \<Rightarrow> s | Inr s' \<Rightarrow> s')"
| "step sf Tick s = tick s"
| "step sf ClearError s = clear_error s"
| "step sf (AddParcel p) s = add_parcel p s"

fun run :: "(string \<Rightarrow> pyfloat option) \<Rightarrow> event list \<Rightarrow> world \<Rightarrow> world" where
  "run sf [] s = s"
| "run sf (e # es) s = run sf es (step sf e s)"

text \<open>
  The states some interleaving reaches from the initial one. The recovery action is
  allowed at any moment, which includes the moments the timer can fire at.
\<close>

inductive reachable :: "(string \<Rightarrow> pyfloat option) \<Rightarrow> world \<Rightarrow> bool"
  for sf :: "string \<Rightarrow> pyfloat option" where
  reach_init: "reachable sf init"
| reach_step: "reachable sf s \<Longrightarrow> reachable sf (step sf e s)"

section \<open>Auxiliary facts\<close>

lemma run_append: "run sf (es @ fs) s = run sf fs (run sf es s)"
  by (induction es arbitrary: s) simp_all

lemma run_ticks: "run sf (replicate n Tick) s = (tick ^^ n) s"
  by (induction n arbitrary: s) (simp_all add: funpow_swap1)

lemma reachable_run: "reachable sf s \<Longrightarrow> reachable sf (run sf es s)"
  by (induction es arbitrary: s) (simp_all add: reach_step)

lemma doors_tick: "doors (tick s) = doors s"
  by (simp add: tick_def Let_def)

lemma doors_ticks: "doors ((tick ^^ n) s) = doors s"
  by (induction n) (simp_all add: doors_tick)

lemma cabin_tick_no_error: "cabin s \<noteq> ERROR \<Longrightarrow> cabin (tick s) \<noteq> ERROR"
  by (simp add: tick_def Let_def)

lemma cabin_ticks_no_error: "cabin s \<noteq> ERROR \<Longrightarrow> cabin ((tick ^^ n) s) \<noteq> ERROR"
  by (induction n) (simp_all add: cabin_tick_no_error)

lemma tick_not_running:
  "\<not> running s \<Longrightarrow> tick s = s\<lparr>speed_ms := 0, cabin := IDLE\<rparr>"
  by (simp add: tick_def)

lemma ticks_not_running:
  "\<not> running s \<Longrightarrow> \<not> running ((tick ^^ n) s) \<and> position_km ((tick ^^ n) s) = position_km s"
  by (induction n) (simp_all add: tick_not_running)

lemma clamp_bounds: "lo \<le> hi \<Longrightarrow> lo \<le> clamp lo hi x \<and> clamp lo hi x \<le> hi"
  by (cases x) simp_all

lemma load_loop_first:
  "\<forall>q \<in> set pre. status q \<noteq> QUEUED \<Longrightarrow> status p = QUEUED \<Longrightarrow>
   load_loop (pre @ p # post) kg
   = (pre @ p\<lparr>status := LOADED\<rparr> # post, py_add kg (weight_kg p))"
  by (induction pre) simp_all

lemma load_loop_none:
  "\<forall>q \<in> set ps. status q \<noteq> QUEUED \<Longrightarrow> load_loop ps kg = (ps, kg)"
  by (induction ps) simp_all

lemma floor_log2_binade:
  assumes "2 ^ 53 \<le> x" "x < 2 ^ 54"
  shows "\<lfloor>log 2 x\<rfloor> = 53"
proof -
  have pos: "0 < x" using assms(1) by (smt (verit) zero_less_power)
  show ?thesis
    using assms pos by (subst floor_log_eq_powr_iff) simp_all
qed

text \<open>Between \<open>2 ^ 53\<close> and \<open>2 ^ 54\<close> the doubles are the even integers.\<close>

lemma round_double_binade:
  assumes "2 ^ 53 \<le> x" "x < 2 ^ 54"
  shows "round_double x = Fin (of_int (round_half_even (x / 2)) * 2)"
proof -
  have pos: "0 < x" using assms(1) by (smt (verit) zero_less_power)
  have "x / 2 < 2 ^ 53" using assms(2) by simp
  then have fl: "\<lfloor>x / 2\<rfloor> < 2 ^ 53"
    by (simp add: floor_less_iff)
  have up: "round_half_even (x / 2) \<le> \<lfloor>x / 2\<rfloor> + 1"
    by (simp add: round_half_even_def Let_def)
  have lo: "0 \<le> round_half_even (x / 2)"
    using pos by (simp add: round_half_even_def Let_def)
  from fl up have "round_half_even (x / 2) \<le> 2 ^ 53" by linarith
  then have "real_of_int (round_half_even (x / 2)) \<le> 2 ^ 53"
    by (metis of_int_le_iff of_int_numeral of_int_power)
  moreover have "0 \<le> real_of_int (round_half_even (x / 2))" using lo by simp
  ultimately have "\<bar>real_of_int (round_half_even (x / 2)) * 2\<bar> < 2 ^ 1024"
    by simp
  moreover have "\<bar>x\<bar> = x" using pos by simp
  ultimately show ?thesis
    using pos by (simp add: round_double_def floor_log2_binade [OF assms] Let_def)
qed

lemma round_double_at:
  assumes "2 powr of_int k \<le> \<bar>x\<bar>" "\<bar>x\<bar> < 2 powr of_int (k + 1)"
  shows "round_double x =
     (let e = max (k - 52) (- 1074);
          y = of_int (round_half_even (x / 2 powr of_int e)) * 2 powr of_int e
      in if 2 ^ 1024 \<le> \<bar>y\<bar> then (if 0 < x then PInf else NInf) else Fin y)"
proof -
  have "0 < \<bar>x\<bar>" using assms(1) by (smt (verit) powr_gt_zero)
  then have nz: "x \<noteq> 0" by simp
  have "\<lfloor>log 2 \<bar>x\<bar>\<rfloor> = k"
    using assms \<open>0 < \<bar>x\<bar>\<close> by (subst floor_log_eq_powr_iff) simp_all
  with nz show ?thesis by (simp add: round_double_def)
qed

text \<open>
  The float addition at some inputs: \<^verbatim>\<open>0.5 + 0.25\<close> is exact; \<^verbatim>\<open>0.1 + 0.2\<close>, on the
  doubles that these literals denote, is a tie that rounds up to the double printed as
  \<^verbatim>\<open>0.30000000000000004\<close>; \<^verbatim>\<open>2.0**1023 + 2.0**1023\<close> overflows.
\<close>

lemma py_add_finite_examples:
  "py_add (Fin (1 / 2)) (Fin (1 / 4)) = Fin (3 / 4)"
  "py_add (Fin (3602879701896397 / 2 ^ 55)) (Fin (3602879701896397 / 2 ^ 54))
   = Fin (5404319552844596 / 2 ^ 54)"
  "py_add (Fin (2 ^ 1023)) (Fin (2 ^ 1023)) = PInf"
  "py_add (Fin (- (2 ^ 1023))) (Fin (- (2 ^ 1023))) = NInf"
  using round_double_at [of "- 1" "3 / 4"]
        round_double_at [of "- 2" "3602879701896397 / 2 ^ 55 + 3602879701896397 / 2 ^ 54"]
        round_double_at [of 1024 "2 ^ 1023 + 2 ^ 1023"]
        round_double_at [of 1024 "- (2 ^ 1023) - 2 ^ 1023"]
  by (simp_all add: round_half_even_def Let_def powr_minus_divide)

lemma py_add_nonfinite:
  "py_add NaN b = NaN" "py_add a NaN = NaN"
  "py_add PInf NInf = NaN" "py_add NInf PInf = NaN"
  "py_add PInf (Fin y) = PInf" "py_add (Fin x) PInf = PInf" "py_add PInf PInf = PInf"
  "py_add NInf (Fin y) = NInf" "py_add (Fin x) NInf = NInf" "py_add NInf NInf = NInf"
  by (cases a; cases b; simp)+

section \<open>The tick and the ERROR mode\<close>

text \<open>
  C1. The property asks that a tick leaves \<open>cabin = ERROR\<close> in every state with
  \<open>cabin = ERROR\<close> and \<open>running = False\<close>. The code does the opposite:
  \<^verbatim>\<open>emergency_stop\<close> produces exactly such a state, and the branch
  \<^verbatim>\<open>if not STATE["running"]: STATE["cabin"] = "IDLE"\<close> of the next tick sets the cabin
  to \<open>IDLE\<close>, whatever the other fields are.
\<close>

theorem tick_overwrites_error:
  "send_command sf \<lparr>action = emergency_stop, payload = p\<rparr> s
     = Inr (s\<lparr>running := False, cabin := ERROR\<rparr>)
   \<and> cabin (tick (s\<lparr>running := False, cabin := ERROR\<rparr>)) = IDLE"
  by (simp add: tick_def send_command_def)

section \<open>Bounds of the reachable states\<close>

lemma send_command_bounds:
  assumes "send_command sf cmd s = Inr s'"
    and "0 \<le> position_km s \<and> position_km s \<le> 100"
    and "0 \<le> target_km s \<and> target_km s \<le> 100"
    and "0 \<le> SETPOINT_MS s \<and> SETPOINT_MS s \<le> 200"
    and "\<bar>speed_ms s\<bar> \<le> 200"
  shows "(0 \<le> position_km s' \<and> position_km s' \<le> 100)
       \<and> (0 \<le> target_km s' \<and> target_km s' \<le> 100)
       \<and> (0 \<le> SETPOINT_MS s' \<and> SETPOINT_MS s' \<le> 200)
       \<and> \<bar>speed_ms s'\<bar> \<le> 200"
proof (cases "action cmd")
  case set_target
  with assms show ?thesis
    using clamp_bounds [of 0 100]
    by (auto simp: send_command_def split: sum.splits)
next
  case set_speed
  with assms show ?thesis
    using clamp_bounds [of 0 200]
    by (auto simp: send_command_def split: sum.splits)
qed (use assms in \<open>auto simp: send_command_def Let_def split: prod.splits if_splits\<close>)

lemma tick_bounds:
  assumes "0 \<le> position_km s \<and> position_km s \<le> 100"
    and "0 \<le> target_km s \<and> target_km s \<le> 100"
    and "0 \<le> SETPOINT_MS s \<and> SETPOINT_MS s \<le> 200"
  shows "(0 \<le> position_km (tick s) \<and> position_km (tick s) \<le> 100)
       \<and> target_km (tick s) = target_km s
       \<and> SETPOINT_MS (tick s) = SETPOINT_MS s
       \<and> \<bar>speed_ms (tick s)\<bar> \<le> SETPOINT_MS s"
  using assms by (auto simp: tick_def Let_def TICK_def)

lemma lowered_run:
  "run no_str_float
     [Command \<lparr>action = set_target, payload = Some [''km'' \<mapsto> PyInt 50]\<rparr>,
      Command \<lparr>action = start, payload = None\<rparr>,
      Tick,
      Command \<lparr>action = set_speed, payload = Some [''ms'' \<mapsto> PyInt 10]\<rparr>] init
   = init\<lparr>position_km := 0.004, speed_ms := 20, running := True, target_km := 50,
          cabin := MOVING, SETPOINT_MS := 10\<rparr>"
  by (simp add: send_command_def payload_get_def tick_def TICK_def init_def)

text \<open>
  C2, as the code has it. In every state that an interleaving of commands, ticks,
  recovery actions and parcel insertions reaches from the initial state, the position and
  the target lie in \<open>[0, 100]\<close>, the setpoint lies in \<open>[0, 200]\<close> and the magnitude of
  the speed is at most 200; the magnitude of the speed is at most the setpoint in the
  state that a tick leaves behind.
\<close>

theorem reachable_bounds:
  assumes "reachable sf s"
  shows "(0 \<le> position_km s \<and> position_km s \<le> 100)
       \<and> (0 \<le> target_km s \<and> target_km s \<le> 100)
       \<and> (0 \<le> SETPOINT_MS s \<and> SETPOINT_MS s \<le> 200)
       \<and> \<bar>speed_ms s\<bar> \<le> 200
       \<and> \<bar>speed_ms (tick s)\<bar> \<le> SETPOINT_MS (tick s)"
proof -
  have inv: "(0 \<le> position_km s \<and> position_km s \<le> 100)
       \<and> (0 \<le> target_km s \<and> target_km s \<le> 100)
       \<and> (0 \<le> SETPOINT_MS s \<and> SETPOINT_MS s \<le> 200)
       \<and> \<bar>speed_ms s\<bar> \<le> 200"
    using assms
  proof (induction rule: reachable.induct)
    case reach_init
    show ?case by (simp add: init_def)
  next
    case (reach_step s e)
    show ?case
    proof (cases e)
      case (Command cmd)
      show ?thesis
      proof (cases "send_command sf cmd s")
        case (Inl err)
        with Command reach_step.IH show ?thesis by simp
      next
        case (Inr s')
        from send_command_bounds [OF Inr] reach_step.IH Command Inr
        show ?thesis by simp
      qed
    next
      case Tick
      from tick_bounds [of s] reach_step.IH Tick show ?thesis by simp
    next
      case ClearError
      with reach_step.IH show ?thesis by (simp add: clear_error_def)
    next
      case (AddParcel p)
      with reach_step.IH show ?thesis by (simp add: add_parcel_def)
    qed
  qed
  with tick_bounds [of s] show ?thesis by simp
qed

text \<open>
  The bounds at the state reached by \<^verbatim>\<open>set_target(50)\<close>, \<^verbatim>\<open>start\<close> and one tick.
\<close>

theorem reachable_bounds_witness:
  "reachable no_str_float (run no_str_float
     [Command \<lparr>action = set_target, payload = Some [''km'' \<mapsto> PyInt 50]\<rparr>,
      Command \<lparr>action = start, payload = None\<rparr>, Tick] init)
   \<and> position_km (run no_str_float
     [Command \<lparr>action = set_target, payload = Some [''km'' \<mapsto> PyInt 50]\<rparr>,
      Command \<lparr>action = start, payload = None\<rparr>, Tick] init) \<le> 100
   \<and> \<bar>speed_ms (run no_str_float
     [Command \<lparr>action = set_target, payload = Some [''km'' \<mapsto> PyInt 50]\<rparr>,
      Command \<lparr>action = start, payload = None\<rparr>, Tick] init)\<bar> \<le> 200"
  using reachable_bounds [OF reachable_run [OF reach_init], of no_str_float
     "[Command \<lparr>action = set_target, payload = Some [''km'' \<mapsto> PyInt 50]\<rparr>,
      Command \<lparr>action = start, payload = None\<rparr>, Tick]"]
    reachable_run [OF reach_init, of no_str_float]
  by blast

text \<open>
  The bound \<open>\<bar>speed_ms\<bar> \<le> setpoint_ms\<close> does not hold in every reachable state:
  \<^verbatim>\<open>set_target(50)\<close>, \<^verbatim>\<open>start\<close>, one tick and \<^verbatim>\<open>set_speed(10)\<close> reach a state with speed
  20 and setpoint 10, since \<^verbatim>\<open>set_speed\<close> writes the setpoint only.
\<close>

theorem speed_above_lowered_setpoint:
  "reachable no_str_float
     (init\<lparr>position_km := 0.004, speed_ms := 20, running := True, target_km := 50,
           cabin := MOVING, SETPOINT_MS := 10\<rparr>)
   \<and> \<not> \<bar>speed_ms (init\<lparr>position_km := 0.004, speed_ms := 20, running := True,
                       target_km := 50, cabin := MOVING, SETPOINT_MS := 10\<rparr>)\<bar>
       \<le> SETPOINT_MS (init\<lparr>position_km := 0.004, speed_ms := 20, running := True,
                       target_km := 50, cabin := MOVING, SETPOINT_MS := 10\<rparr>)"
proof
  show "reachable no_str_float
     (init\<lparr>position_km := 0.004, speed_ms := 20, running := True, target_km := 50,
           cabin := MOVING, SETPOINT_MS := 10\<rparr>)"
    using reachable_run [OF reach_init, of no_str_float] lowered_run by metis
qed simp

section \<open>The run towards a target\<close>

lemma tick_far:
  assumes "0 \<le> x" "x \<le> 12497 / 250"
  shows "tick (init\<lparr>target_km := 50, running := True, cabin := MOVING,
                     position_km := x, speed_ms := v\<rparr>)
         = init\<lparr>target_km := 50, running := True, cabin := MOVING,
                position_km := x + 1 / 250, speed_ms := 20\<rparr>"
  using assms by (simp add: tick_def TICK_def init_def)

lemma tick_stuck:
  assumes "\<bar>50 - x\<bar> \<le> 1 / 100"
  shows "tick (init\<lparr>target_km := 50, running := True, cabin := MOVING,
                     position_km := x, speed_ms := v\<rparr>)
         = init\<lparr>target_km := 50, running := True, cabin := MOVING,
                position_km := x, speed_ms := 0\<rparr>"
  using assms by (simp add: tick_def init_def)

lemma ticks_approach:
  "n \<le> 12498 \<Longrightarrow>
   (tick ^^ n) (init\<lparr>target_km := 50, running := True, cabin := MOVING\<rparr>)
   = init\<lparr>target_km := 50, running := True, cabin := MOVING,
          position_km := real n / 250, speed_ms := (if n = 0 then 0 else 20)\<rparr>"
proof (induction n)
  case 0
  show ?case by (simp add: init_def)
next
  case (Suc n)
  then have le: "real n \<le> 12497" by simp
  have "(tick ^^ Suc n) (init\<lparr>target_km := 50, running := True, cabin := MOVING\<rparr>)
        = tick (init\<lparr>target_km := 50, running := True, cabin := MOVING,
                    position_km := real n / 250, speed_ms := (if n = 0 then 0 else 20)\<rparr>)"
    using Suc by simp
  also have "\<dots> = init\<lparr>target_km := 50, running := True, cabin := MOVING,
                    position_km := real n / 250 + 1 / 250, speed_ms := 20\<rparr>"
    using le by (intro tick_far) simp_all
  also have "real n / 250 + 1 / 250 = real (Suc n) / 250"
    by (simp add: add_divide_distrib)
  finally show ?case by simp
qed

lemma ticks_stuck:
  assumes "\<bar>50 - x\<bar> \<le> 1 / 100"
  shows "(tick ^^ Suc k) (init\<lparr>target_km := 50, running := True, cabin := MOVING,
                                position_km := x, speed_ms := v\<rparr>)
         = init\<lparr>target_km := 50, running := True, cabin := MOVING,
                position_km := x, speed_ms := 0\<rparr>"
  using assms by (induction k) (simp_all add: tick_stuck)

text \<open>
  C3. The property asks that, after \<^verbatim>\<open>set_target(50)\<close> and \<^verbatim>\<open>start\<close> from the initial
  state, the ticks end in \<open>cabin = IDLE\<close>, \<open>running = False\<close>, \<open>position_km = 50\<close>. With
  the default setpoint of 20 a tick moves the cabin by 0.004 km. The state after \<open>n\<close>
  ticks is computed here for every \<open>n\<close>: the position is \<open>n / 250\<close> up to tick 12498, where
  it is 49.992, and it stays there for ever with \<open>running = True\<close> and \<open>cabin = MOVING\<close>.
  The remaining 0.008 km are not above the 0.01 that \<open>moving\<close> asks for, and were not
  below the 0.005 of the arrival test, so the cabin neither moves nor arrives.
\<close>

theorem convergence_stalls:
  "run sf (Command \<lparr>action = set_target, payload = Some [''km'' \<mapsto> PyInt 50]\<rparr>
           # Command \<lparr>action = start, payload = None\<rparr> # replicate n Tick) init
   = init\<lparr>target_km := 50, running := True, cabin := MOVING,
          position_km := real (min n 12498) / 250,
          speed_ms := (if 0 < n \<and> n \<le> 12498 then 20 else 0)\<rparr>"
proof -
  have go: "run sf (Command \<lparr>action = set_target, payload = Some [''km'' \<mapsto> PyInt 50]\<rparr>
           # Command \<lparr>action = start, payload = None\<rparr> # replicate n Tick) init
        = (tick ^^ n) (init\<lparr>target_km := 50, running := True, cabin := MOVING\<rparr>)"
    by (simp add: run_ticks send_command_def payload_get_def init_def)
  show ?thesis
  proof (cases "n \<le> 12498")
    case True
    then show ?thesis unfolding go by (simp add: ticks_approach min_def)
  next
    case False
    then obtain k where n: "n = Suc k + 12498"
      by (metis add.commute add_Suc less_imp_Suc_add not_le)
    have "(tick ^^ n) (init\<lparr>target_km := 50, running := True, cabin := MOVING\<rparr>)
          = (tick ^^ Suc k)
              ((tick ^^ 12498) (init\<lparr>target_km := 50, running := True, cabin := MOVING\<rparr>))"
      unfolding n funpow_add by simp
    also have "\<dots> = init\<lparr>target_km := 50, running := True, cabin := MOVING,
          position_km := 12498 / 250, speed_ms := 0\<rparr>"
      using ticks_approach [of 12498] ticks_stuck [of "12498 / 250" k 20] by simp
    finally show ?thesis unfolding go using False by (simp add: min_def)
  qed
qed

section \<open>What the handler returns\<close>

text \<open>
  \<^verbatim>\<open>send_command\<close> raises exactly when the action is \<^verbatim>\<open>set_target\<close> or \<^verbatim>\<open>set_speed\<close> and
  \<^verbatim>\<open>float\<close> rejects the \<^verbatim>\<open>km\<close> or \<^verbatim>\<open>ms\<close> value of the payload (or the default that stands
  in for a missing one), and then with the error of \<^verbatim>\<open>float\<close>.
\<close>

lemma send_command_error_iff:
  "send_command sf cmd s = Inl e \<longleftrightarrow>
     (action cmd = set_target \<and> py_float sf (payload_get cmd ''km'' (PyInt 0)) = Inl e)
     \<or> (action cmd = set_speed
         \<and> py_float sf (payload_get cmd ''ms'' (PyFloat (Fin (SETPOINT_MS s)))) = Inl e)"
  by (cases "action cmd") (simp_all add: send_command_def Let_def split: sum.splits prod.splits)

text \<open>
  C4. The property asks that every command of a recognized kind, with any payload,
  returns ok, a non-numeric \<^verbatim>\<open>km\<close> or \<^verbatim>\<open>ms\<close> being ignored or clamped. The handler
  absorbs a missing payload, a missing key and every value of \<^verbatim>\<open>state\<close>, and its only
  return is \<^verbatim>\<open>{"ok": True}\<close>; but it hands the \<^verbatim>\<open>km\<close> and \<^verbatim>\<open>ms\<close> values to \<^verbatim>\<open>float\<close>
  unguarded. So \<^verbatim>\<open>set_target\<close> with the payload \<^verbatim>\<open>{"km": null}\<close> and \<^verbatim>\<open>set_speed\<close> with
  \<^verbatim>\<open>{"ms": []}\<close> raise \<^verbatim>\<open>TypeError\<close>, where \<^verbatim>\<open>set_doors\<close> with \<^verbatim>\<open>{"state": null}\<close> returns
  and closes the doors.
\<close>

theorem set_target_null_raises:
  "send_command no_str_float \<lparr>action = set_target, payload = Some [''km'' \<mapsto> PyNone]\<rparr> init
     = Inl TypeError
   \<and> send_command no_str_float \<lparr>action = set_speed, payload = Some [''ms'' \<mapsto> PyList []]\<rparr> init
     = Inl TypeError
   \<and> send_command no_str_float \<lparr>action = set_doors, payload = Some [''state'' \<mapsto> PyNone]\<rparr>
        (init\<lparr>doors := OPEN\<rparr>)
     = Inr (init\<lparr>doors := CLOSED\<rparr>)"
  by (simp add: send_command_def payload_get_def init_def)

section \<open>Doors\<close>

text \<open>
  C5. A \<^verbatim>\<open>set_doors\<close> command returns the state unchanged when \<open>\<bar>speed_ms\<bar> \<ge> 0.1\<close>.
  When \<open>\<bar>speed_ms\<bar> < 0.1\<close> it sets the doors to \<open>OPEN\<close> if the requested state is the
  string \<^verbatim>\<open>"OPEN"\<close>, and to \<open>CLOSED\<close> for every other or missing request, with no other
  field changed.
\<close>

theorem set_doors_speed_gate:
  "(0.1 \<le> \<bar>speed_ms s\<bar> \<longrightarrow>
      send_command sf \<lparr>action = set_doors, payload = p\<rparr> s = Inr s)
   \<and> (\<bar>speed_ms s\<bar> < 0.1
       \<and> payload_get \<lparr>action = set_doors, payload = p\<rparr> ''state'' PyNone = PyStr ''OPEN'' \<longrightarrow>
      send_command sf \<lparr>action = set_doors, payload = p\<rparr> s = Inr (s\<lparr>doors := OPEN\<rparr>))
   \<and> (\<bar>speed_ms s\<bar> < 0.1
       \<and> payload_get \<lparr>action = set_doors, payload = p\<rparr> ''state'' PyNone \<noteq> PyStr ''OPEN'' \<longrightarrow>
      send_command sf \<lparr>action = set_doors, payload = p\<rparr> s = Inr (s\<lparr>doors := CLOSED\<rparr>))"
  by (simp add: send_command_def)

text \<open>
  At speed 20 the request to open is dropped; at rest it opens the doors; at rest a
  request for \<^verbatim>\<open>"AJAR"\<close> closes open doors.
\<close>

theorem set_doors_speed_gate_witness:
  "send_command no_str_float
      \<lparr>action = set_doors, payload = Some [''state'' \<mapsto> PyStr ''OPEN'']\<rparr> (init\<lparr>speed_ms := 20\<rparr>)
     = Inr (init\<lparr>speed_ms := 20\<rparr>)
   \<and> send_command no_str_float
      \<lparr>action = set_doors, payload = Some [''state'' \<mapsto> PyStr ''OPEN'']\<rparr> init
     = Inr (init\<lparr>doors := OPEN\<rparr>)
   \<and> send_command no_str_float
      \<lparr>action = set_doors, payload = Some [''state'' \<mapsto> PyStr ''AJAR'']\<rparr> (init\<lparr>doors := OPEN\<rparr>)
     = Inr (init\<lparr>doors := CLOSED\<rparr>)"
  using set_doors_speed_gate [of "init\<lparr>speed_ms := 20\<rparr>" no_str_float
          "Some [''state'' \<mapsto> PyStr ''OPEN'']"]
        set_doors_speed_gate [of init no_str_float "Some [''state'' \<mapsto> PyStr ''OPEN'']"]
        set_doors_speed_gate [of "init\<lparr>doors := OPEN\<rparr>" no_str_float
          "Some [''state'' \<mapsto> PyStr ''AJAR'']"]
  by (simp add: init_def payload_get_def)

section \<open>The recovery action\<close>

text \<open>
  C6. The recovery action sets the cabin to \<open>IDLE\<close>, and nothing else, when the cabin is
  \<open>ERROR\<close>; in every other state it changes nothing. When the doors are not open, a
  \<^verbatim>\<open>start\<close> after an \<^verbatim>\<open>emergency_stop\<close> gives \<open>cabin = MOVING\<close>, and with any number of
  ticks between the two commands and between \<^verbatim>\<open>start\<close> and the recovery action, the
  recovery action leaves the state as it finds it.
\<close>

theorem clear_error_only_if_error:
  "(cabin s = ERROR \<longrightarrow> clear_error s = s\<lparr>cabin := IDLE\<rparr>)
   \<and> (cabin s \<noteq> ERROR \<longrightarrow> clear_error s = s)
   \<and> (doors s \<noteq> OPEN \<longrightarrow>
        cabin (step sf (Command \<lparr>action = start, payload = p\<rparr>)
                 (step sf (Command \<lparr>action = emergency_stop, payload = q\<rparr>) s)) = MOVING
        \<and> run sf (Command \<lparr>action = emergency_stop, payload = q\<rparr> # replicate a Tick
                   @ Command \<lparr>action = start, payload = p\<rparr> # replicate b Tick @ [ClearError]) s
          = run sf (Command \<lparr>action = emergency_stop, payload = q\<rparr> # replicate a Tick
                   @ Command \<lparr>action = start, payload = p\<rparr> # replicate b Tick) s)"
proof (intro conjI impI)
  assume d: "doors s \<noteq> OPEN"
  define s1 where "s1 = (tick ^^ a) (s\<lparr>running := False, cabin := ERROR\<rparr>)"
  define s2 where "s2 = s1\<lparr>running := True, cabin := MOVING\<rparr>"
  have d1: "doors s1 \<noteq> OPEN"
    using d by (simp add: s1_def doors_ticks)
  have "cabin ((tick ^^ b) s2) \<noteq> ERROR"
    by (rule cabin_ticks_no_error) (simp add: s2_def)
  then have "clear_error ((tick ^^ b) s2) = (tick ^^ b) s2"
    by (simp add: clear_error_def)
  then show "run sf (Command \<lparr>action = emergency_stop, payload = q\<rparr> # replicate a Tick
                   @ Command \<lparr>action = start, payload = p\<rparr> # replicate b Tick @ [ClearError]) s
          = run sf (Command \<lparr>action = emergency_stop, payload = q\<rparr> # replicate a Tick
                   @ Command \<lparr>action = start, payload = p\<rparr> # replicate b Tick) s"
    using d1 by (simp add: run_append run_ticks send_command_def s1_def s2_def)
  show "cabin (step sf (Command \<lparr>action = start, payload = p\<rparr>)
                 (step sf (Command \<lparr>action = emergency_stop, payload = q\<rparr>) s)) = MOVING"
    using d by (simp add: send_command_def)
qed (simp_all add: clear_error_def)

theorem clear_error_only_if_error_witness:
  "clear_error (init\<lparr>cabin := ERROR\<rparr>) = init\<lparr>cabin := IDLE\<rparr>
   \<and> clear_error (init\<lparr>cabin := MOVING\<rparr>) = init\<lparr>cabin := MOVING\<rparr>
   \<and> run no_str_float [Command \<lparr>action = emergency_stop, payload = None\<rparr>, Tick,
                        Command \<lparr>action = start, payload = None\<rparr>, Tick, Tick, ClearError] init
     = run no_str_float [Command \<lparr>action = emergency_stop, payload = None\<rparr>, Tick,
                        Command \<lparr>action = start, payload = None\<rparr>, Tick, Tick] init"
  using clear_error_only_if_error [of "init\<lparr>cabin := ERROR\<rparr>" no_str_float None None 0 0]
        clear_error_only_if_error [of "init\<lparr>cabin := MOVING\<rparr>" no_str_float None None 0 0]
        clear_error_only_if_error [of init no_str_float None None 1 2]
  by (simp add: init_def numeral_2_eq_2)

section \<open>Clamping\<close>

text \<open>
  On the inputs that \<^verbatim>\<open>float\<close> converts, the two commands clamp: for every real \<open>x\<close>
  sent as a float and every integer \<open>n\<close> with \<open>\<bar>n\<bar> < 2^1024 - 2^970\<close>, \<^verbatim>\<open>set_target\<close>
  returns the state with \<open>target_km\<close> set to the input clamped to \<open>[0, 100]\<close> and
  \<^verbatim>\<open>set_speed\<close> returns the state with the setpoint set to the input clamped to
  \<open>[0, 200]\<close>; no other field changes.
\<close>

lemma clamp_commands:
  "send_command sf \<lparr>action = set_target, payload = Some (m(''km'' \<mapsto> PyFloat (Fin x)))\<rparr> s
     = Inr (s\<lparr>target_km := max 0 (min 100 x)\<rparr>)
   \<and> send_command sf \<lparr>action = set_speed, payload = Some (m(''ms'' \<mapsto> PyFloat (Fin x)))\<rparr> s
     = Inr (s\<lparr>SETPOINT_MS := max 0 (min 200 x)\<rparr>)
   \<and> (\<bar>n\<bar> < 2 ^ 1024 - 2 ^ 970 \<longrightarrow>
        send_command sf \<lparr>action = set_target, payload = Some (m(''km'' \<mapsto> PyInt n))\<rparr> s
          = Inr (s\<lparr>target_km := max 0 (min 100 (of_int n))\<rparr>)
        \<and> send_command sf \<lparr>action = set_speed, payload = Some (m(''ms'' \<mapsto> PyInt n))\<rparr> s
          = Inr (s\<lparr>SETPOINT_MS := max 0 (min 200 (of_int n))\<rparr>))"
  by (simp add: send_command_def payload_get_def)

text \<open>
  The floats that are no reals are clamped too: \<open>+inf\<close> and NaN give the upper bound,
  \<open>-inf\<close> the lower one.
\<close>

lemma clamp_commands_nonfinite:
  "send_command sf \<lparr>action = set_target, payload = Some (m(''km'' \<mapsto> PyFloat PInf))\<rparr> s
     = Inr (s\<lparr>target_km := 100\<rparr>)
   \<and> send_command sf \<lparr>action = set_target, payload = Some (m(''km'' \<mapsto> PyFloat NInf))\<rparr> s
     = Inr (s\<lparr>target_km := 0\<rparr>)
   \<and> send_command sf \<lparr>action = set_target, payload = Some (m(''km'' \<mapsto> PyFloat NaN))\<rparr> s
     = Inr (s\<lparr>target_km := 100\<rparr>)
   \<and> send_command sf \<lparr>action = set_speed, payload = Some (m(''ms'' \<mapsto> PyFloat PInf))\<rparr> s
     = Inr (s\<lparr>SETPOINT_MS := 200\<rparr>)
   \<and> send_command sf \<lparr>action = set_speed, payload = Some (m(''ms'' \<mapsto> PyFloat NInf))\<rparr> s
     = Inr (s\<lparr>SETPOINT_MS := 0\<rparr>)
   \<and> send_command sf \<lparr>action = set_speed, payload = Some (m(''ms'' \<mapsto> PyFloat NaN))\<rparr> s
     = Inr (s\<lparr>SETPOINT_MS := 200\<rparr>)"
  by (simp add: send_command_def payload_get_def)

text \<open>
  \<^verbatim>\<open>set_target(150)\<close> gives 100, \<^verbatim>\<open>set_target(-10)\<close> gives 0, \<^verbatim>\<open>set_speed(500)\<close> gives
  200 and \<^verbatim>\<open>set_target(37.5)\<close> gives 37.5.
\<close>

lemma clamp_commands_examples:
  "send_command no_str_float \<lparr>action = set_target, payload = Some [''km'' \<mapsto> PyInt 150]\<rparr> init
     = Inr (init\<lparr>target_km := 100\<rparr>)
   \<and> send_command no_str_float \<lparr>action = set_target, payload = Some [''km'' \<mapsto> PyInt (- 10)]\<rparr>
        (init\<lparr>target_km := 50\<rparr>)
     = Inr (init\<lparr>target_km := 0\<rparr>)
   \<and> send_command no_str_float \<lparr>action = set_speed, payload = Some [''ms'' \<mapsto> PyInt 500]\<rparr> init
     = Inr (init\<lparr>SETPOINT_MS := 200\<rparr>)
   \<and> send_command no_str_float
        \<lparr>action = set_target, payload = Some [''km'' \<mapsto> PyFloat (Fin 37.5)]\<rparr> init
     = Inr (init\<lparr>target_km := 37.5\<rparr>)"
  using clamp_commands [of no_str_float Map.empty 0 init 150]
        clamp_commands [of no_str_float Map.empty 0 "init\<lparr>target_km := 50\<rparr>" "- 10"]
        clamp_commands [of no_str_float Map.empty 0 init 500]
        clamp_commands [of no_str_float Map.empty "37.5" init 0]
  by simp

text \<open>
  C7. The property asks that \<^verbatim>\<open>set_target\<close> and \<^verbatim>\<open>set_speed\<close> clamp every input and
  reject none that is out of range. The integer \<open>10^400\<close> as \<^verbatim>\<open>km\<close> is rejected:
  \<^verbatim>\<open>float\<close> raises \<^verbatim>\<open>OverflowError\<close> before the clamp, and the handler raises instead of
  setting the target to 100. The same number written as the float \<^verbatim>\<open>1e400\<close>, which is
  \<open>+inf\<close>, is clamped to 100.
\<close>

theorem set_target_huge_int_raises:
  "send_command no_str_float
     \<lparr>action = set_target, payload = Some [''km'' \<mapsto> PyInt (10 ^ 400)]\<rparr> init
     = Inl OverflowError
   \<and> send_command no_str_float
     \<lparr>action = set_target, payload = Some [''km'' \<mapsto> PyFloat PInf]\<rparr> init
     = Inr (init\<lparr>target_km := 100\<rparr>)"
  by (simp add: send_command_def payload_get_def)

section \<open>Loading from the warehouse\<close>

text \<open>
  C8, as the code has it. A parcel list with a \<open>QUEUED\<close> parcel splits as
  \<open>pre @ p # post\<close> with no \<open>QUEUED\<close> parcel in \<open>pre\<close> and \<open>p\<close> \<open>QUEUED\<close>; for such a
  split, \<^verbatim>\<open>load_from_warehouse\<close> marks \<open>p\<close> as \<open>LOADED\<close>, leaves \<open>pre\<close> and \<open>post\<close> as they
  are and sets \<open>payload_kg\<close> to the float sum of \<open>payload_kg\<close> and the weight of \<open>p\<close>,
  which is the double nearest to the exact sum when both are finite. When the list has
  no \<open>QUEUED\<close> parcel, the command changes nothing.
\<close>

theorem load_first_queued:
  "((\<exists>q \<in> set (PARCELS s). status q = QUEUED) \<longrightarrow>
      (\<exists>pre p post. PARCELS s = pre @ p # post
         \<and> (\<forall>q \<in> set pre. status q \<noteq> QUEUED) \<and> status p = QUEUED))
   \<and> ((\<forall>q \<in> set pre. status q \<noteq> QUEUED) \<and> status p = QUEUED \<and> PARCELS s = pre @ p # post \<longrightarrow>
      send_command sf \<lparr>action = load_from_warehouse, payload = pl\<rparr> s
      = Inr (s\<lparr>PARCELS := pre @ p\<lparr>status := LOADED\<rparr> # post,
               payload_kg := py_add (payload_kg s) (weight_kg p)\<rparr>))
   \<and> ((\<forall>q \<in> set pre. status q \<noteq> QUEUED) \<and> status p = QUEUED \<and> PARCELS s = pre @ p # post
       \<and> payload_kg s = Fin x \<and> weight_kg p = Fin w \<longrightarrow>
      send_command sf \<lparr>action = load_from_warehouse, payload = pl\<rparr> s
      = Inr (s\<lparr>PARCELS := pre @ p\<lparr>status := LOADED\<rparr> # post,
               payload_kg := round_double (x + w)\<rparr>))
   \<and> ((\<forall>q \<in> set (PARCELS s). status q \<noteq> QUEUED) \<longrightarrow>
      send_command sf \<lparr>action = load_from_warehouse, payload = pl\<rparr> s = Inr s)"
proof (intro conjI impI)
  assume "\<exists>q \<in> set (PARCELS s). status q = QUEUED"
  from split_list_first_prop [OF this]
  show "\<exists>pre p post. PARCELS s = pre @ p # post
         \<and> (\<forall>q \<in> set pre. status q \<noteq> QUEUED) \<and> status p = QUEUED"
    by blast
qed (simp_all add: send_command_def load_loop_first load_loop_none)

text \<open>
  At payload \<open>10^16\<close>, a list of a \<open>LOADED\<close> parcel and two \<open>QUEUED\<close> ones, the first of
  them of weight 2: that parcel is loaded, the third is not, and the payload is
  \<open>10^16 + 2\<close>, which is a double. A list with a \<open>SHIPPED\<close> parcel only stays as it is.
\<close>

theorem load_first_queued_witness:
  "send_command no_str_float \<lparr>action = load_from_warehouse, payload = None\<rparr>
      (init\<lparr>payload_kg := Fin 10000000000000000, PARCELS :=
         [\<lparr>parcel_id = ''a'', weight_kg = Fin 5, destination_km = Fin 10, status = LOADED\<rparr>,
          \<lparr>parcel_id = ''b'', weight_kg = Fin 2, destination_km = Fin 20, status = QUEUED\<rparr>,
          \<lparr>parcel_id = ''c'', weight_kg = Fin 9, destination_km = Fin 30, status = QUEUED\<rparr>]\<rparr>)
     = Inr (init\<lparr>payload_kg := Fin 10000000000000002, PARCELS :=
         [\<lparr>parcel_id = ''a'', weight_kg = Fin 5, destination_km = Fin 10, status = LOADED\<rparr>,
          \<lparr>parcel_id = ''b'', weight_kg = Fin 2, destination_km = Fin 20, status = LOADED\<rparr>,
          \<lparr>parcel_id = ''c'', weight_kg = Fin 9, destination_km = Fin 30, status = QUEUED\<rparr>]\<rparr>)
   \<and> send_command no_str_float \<lparr>action = load_from_warehouse, payload = None\<rparr>
      (init\<lparr>PARCELS :=
         [\<lparr>parcel_id = ''d'', weight_kg = Fin 3, destination_km = Fin 10, status = SHIPPED\<rparr>]\<rparr>)
     = Inr (init\<lparr>PARCELS :=
         [\<lparr>parcel_id = ''d'', weight_kg = Fin 3, destination_km = Fin 10, status = SHIPPED\<rparr>]\<rparr>)"
  using load_first_queued [where sf = no_str_float and pl = None
          and x = 10000000000000000 and w = 2
          and pre = "[\<lparr>parcel_id = ''a'', weight_kg = Fin 5, destination_km = Fin 10,
                       status = LOADED\<rparr>]"
          and p = "\<lparr>parcel_id = ''b'', weight_kg = Fin 2, destination_km = Fin 20,
                     status = QUEUED\<rparr>"
          and post = "[\<lparr>parcel_id = ''c'', weight_kg = Fin 9, destination_km = Fin 30,
                        status = QUEUED\<rparr>]"
          and s = "init\<lparr>payload_kg := Fin 10000000000000000, PARCELS :=
         [\<lparr>parcel_id = ''a'', weight_kg = Fin 5, destination_km = Fin 10, status = LOADED\<rparr>,
          \<lparr>parcel_id = ''b'', weight_kg = Fin 2, destination_km = Fin 20, status = QUEUED\<rparr>,
          \<lparr>parcel_id = ''c'', weight_kg = Fin 9, destination_km = Fin 30, status = QUEUED\<rparr>]\<rparr>"]
        load_first_queued [where sf = no_str_float and pl = None
          and s = "init\<lparr>PARCELS :=
         [\<lparr>parcel_id = ''d'', weight_kg = Fin 3, destination_km = Fin 10, status = SHIPPED\<rparr>]\<rparr>"]
  by (simp add: init_def round_double_binade round_half_even_def Let_def)

text \<open>
  The payload does not always increase by the weight of the parcel. From the initial
  state, two parcels are added, of weight 1 and then of weight \<open>10^16\<close>, which comes
  first in the list. The first \<^verbatim>\<open>load_from_warehouse\<close> loads the heavy one and the payload
  is \<open>10^16\<close>; the second loads the parcel of weight 1 and the payload is still \<open>10^16\<close>,
  because \<open>10^16 + 1\<close> lies half way between two doubles and rounds to the even one.
\<close>

theorem load_rounds_payload:
  "run no_str_float
     [AddParcel \<lparr>parcel_id = ''one'', weight_kg = Fin 1, destination_km = Fin 10,
                 status = QUEUED\<rparr>,
      AddParcel \<lparr>parcel_id = ''big'', weight_kg = Fin 10000000000000000,
                 destination_km = Fin 10, status = QUEUED\<rparr>,
      Command \<lparr>action = load_from_warehouse, payload = None\<rparr>] init
     = init\<lparr>payload_kg := Fin 10000000000000000, PARCELS :=
         [\<lparr>parcel_id = ''big'', weight_kg = Fin 10000000000000000, destination_km = Fin 10,
           status = LOADED\<rparr>,
          \<lparr>parcel_id = ''one'', weight_kg = Fin 1, destination_km = Fin 10,
           status = QUEUED\<rparr>]\<rparr>
   \<and> run no_str_float
     [AddParcel \<lparr>parcel_id = ''one'', weight_kg = Fin 1, destination_km = Fin 10,
                 status = QUEUED\<rparr>,
      AddParcel \<lparr>parcel_id = ''big'', weight_kg = Fin 10000000000000000,
                 destination_km = Fin 10, status = QUEUED\<rparr>,
      Command \<lparr>action = load_from_warehouse, payload = None\<rparr>,
      Command \<lparr>action = load_from_warehouse, payload = None\<rparr>] init
     = init\<lparr>payload_kg := Fin 10000000000000000, PARCELS :=
         [\<lparr>parcel_id = ''big'', weight_kg = Fin 10000000000000000, destination_km = Fin 10,
           status = LOADED\<rparr>,
          \<lparr>parcel_id = ''one'', weight_kg = Fin 1, destination_km = Fin 10,
           status = LOADED\<rparr>]\<rparr>"
  by (simp add: send_command_def add_parcel_def init_def
        round_double_binade round_half_even_def Let_def)

section \<open>After the arrival\<close>

text \<open>
  C9. In a state with \<open>position_km = target_km\<close> and \<open>running = False\<close>, any number of
  ticks leaves \<open>position_km\<close> as it is.
\<close>

theorem arrived_position_fixed:
  "position_km s = target_km s \<Longrightarrow> \<not> running s \<Longrightarrow>
   position_km ((tick ^^ n) s) = position_km s"
  by (simp add: ticks_not_running)

theorem arrived_position_fixed_witness:
  "position_km (init\<lparr>position_km := 50, target_km := 50\<rparr>)
     = target_km (init\<lparr>position_km := 50, target_km := 50\<rparr>)
   \<and> \<not> running (init\<lparr>position_km := 50, target_km := 50\<rparr>)
   \<and> position_km ((tick ^^ 3) (init\<lparr>position_km := 50, target_km := 50\<rparr>)) = 50"
  using arrived_position_fixed [of "init\<lparr>position_km := 50, target_km := 50\<rparr>" 3]
  by (simp add: init_def)

section \<open>The default of a missing target\<close>

text \<open>
  C10. A \<^verbatim>\<open>set_target\<close> command with no payload, or with a payload that has no \<^verbatim>\<open>km\<close>
  key, sets \<open>target_km\<close> to 0 and changes nothing else.
\<close>

theorem set_target_missing_km:
  "send_command sf \<lparr>action = set_target, payload = None\<rparr> s = Inr (s\<lparr>target_km := 0\<rparr>)
   \<and> (m ''km'' = None \<longrightarrow>
        send_command sf \<lparr>action = set_target, payload = Some m\<rparr> s
        = Inr (s\<lparr>target_km := 0\<rparr>))"
  by (simp add: send_command_def payload_get_def)

theorem set_target_missing_km_witness:
  "send_command no_str_float \<lparr>action = set_target, payload = Some Map.empty\<rparr>
      (init\<lparr>target_km := 50\<rparr>)
     = Inr (init\<lparr>target_km := 0\<rparr>)
   \<and> send_command no_str_float \<lparr>action = set_target, payload = Some [''ms'' \<mapsto> PyInt 7]\<rparr>
      (init\<lparr>target_km := 50\<rparr>)
     = Inr (init\<lparr>target_km := 0\<rparr>)"
  using set_target_missing_km [of no_str_float "init\<lparr>target_km := 50\<rparr>" Map.empty]
        set_target_missing_km [of no_str_float "init\<lparr>target_km := 50\<rparr>" "[''ms'' \<mapsto> PyInt 7]"]
  by simp

end
